theory Spec2Isabelle
  imports Main
begin

section \<open>JavaScript values\<close>

text \<open>
  The values that can reach \<^verbatim>\<open>BemEntityName\<close> (src/index.js): \<^verbatim>\<open>undefined\<close>, \<^verbatim>\<open>null\<close>,
  booleans, numbers, strings and plain objects. A plain object is the list of its own
  data properties in insertion order, of any names; its prototype is \<^verbatim>\<open>Object.prototype\<close>.
  Numbers are the integer-valued ones and \<^verbatim>\<open>NaN\<close>. Functions, accessor properties and
  other prototypes are outside the model.
\<close>

datatype jsval =
    JUndefined
  | JNull
  | JBool bool
  | JNum int
  | JNaN
  | JStr string
  | JObj "(string \<times> jsval) list"

type_synonym jsobj = "(string \<times> jsval) list"

text \<open>The two exceptions of the program: the \<^verbatim>\<open>Error\<close> thrown at line 21, with its
  message, and the \<^verbatim>\<open>TypeError\<close> the language raises on a property read of
  \<^verbatim>\<open>undefined\<close> or \<^verbatim>\<open>null\<close> and on a call of a value that is not a function.\<close>

datatype error = Error string | TypeError

definition bindE :: "error + 'a \<Rightarrow> ('a \<Rightarrow> error + 'b) \<Rightarrow> error + 'b" where
  "bindE m f = (case m of Inl e \<Rightarrow> Inl e | Inr x \<Rightarrow> f x)"

text \<open>ToBoolean: the falsy values are \<^verbatim>\<open>undefined\<close>, \<^verbatim>\<open>null\<close>, \<^verbatim>\<open>false\<close>, \<^verbatim>\<open>0\<close>,
  \<^verbatim>\<open>NaN\<close> and the empty string.\<close>

fun truthy :: "jsval \<Rightarrow> bool" where
  "truthy JUndefined = False"
| "truthy JNull = False"
| "truthy (JBool b) = b"
| "truthy (JNum n) = (n \<noteq> 0)"
| "truthy JNaN = False"
| "truthy (JStr s) = (s \<noteq> [])"
| "truthy (JObj kvs) = True"

fun is_string :: "jsval \<Rightarrow> bool" where
  "is_string (JStr s) = True"
| "is_string v = False"

text \<open>Reading an own property of a plain object: \<^verbatim>\<open>undefined\<close> when it is absent.\<close>

definition lookup :: "jsobj \<Rightarrow> string \<Rightarrow> jsval" where
  "lookup kvs k = (case map_of kvs k of None \<Rightarrow> JUndefined | Some v \<Rightarrow> v)"

text \<open>
  The property read \<^verbatim>\<open>v.k\<close>, for the names the program reads (\<^verbatim>\<open>block\<close>, \<^verbatim>\<open>elem\<close>,
  \<^verbatim>\<open>mod\<close>, \<^verbatim>\<open>modName\<close>, \<^verbatim>\<open>modVal\<close>, \<^verbatim>\<open>name\<close>, \<^verbatim>\<open>val\<close>, \<^verbatim>\<open>id\<close>, \<^verbatim>\<open>_isEntity\<close>): none of
  them is defined on the prototype of a boolean, a number, a string or a plain object, so
  a primitive yields \<^verbatim>\<open>undefined\<close>; \<^verbatim>\<open>undefined\<close> and \<^verbatim>\<open>null\<close> raise.
\<close>

fun get_prop :: "jsval \<Rightarrow> string \<Rightarrow> error + jsval" where
  "get_prop JUndefined k = Inl TypeError"
| "get_prop JNull k = Inl TypeError"
| "get_prop (JObj kvs) k = Inr (lookup kvs k)"
| "get_prop v k = Inr JUndefined"

text \<open>
  The call \<^verbatim>\<open>v.hasOwnProperty(k)\<close>. The method is found by property lookup on \<^verbatim>\<open>v\<close>: an
  own property named \<^verbatim>\<open>hasOwnProperty\<close> shadows the one of \<^verbatim>\<open>Object.prototype\<close>, and since
  no value of the model is a function the call then raises a TypeError. A primitive is
  boxed, and its wrapper has no own property of the names the program asks about
  (\<^verbatim>\<open>modVal\<close>, \<^verbatim>\<open>val\<close>).
\<close>

fun hasOwnProperty :: "jsval \<Rightarrow> string \<Rightarrow> error + bool" where
  "hasOwnProperty JUndefined k = Inl TypeError"
| "hasOwnProperty JNull k = Inl TypeError"
| "hasOwnProperty (JObj kvs) k =
     (if ''hasOwnProperty'' \<in> set (map fst kvs) then Inl TypeError
      else Inr (k \<in> set (map fst kvs)))"
| "hasOwnProperty v k = Inr False"

section \<open>The class BemEntityName\<close>

text \<open>
  An instance holds \<^verbatim>\<open>_obj\<close> (the normalized store), the two cache slots \<^verbatim>\<open>_id\<close> and
  \<^verbatim>\<open>_type\<close>, which read \<^verbatim>\<open>undefined\<close> until the getter fills them, and the marker
  \<^verbatim>\<open>_isEntity\<close>. An identifier cannot start with an underscore, hence \<open>priv_\<close>.
\<close>

record BemEntityName =
  priv_obj :: jsobj
  priv_id :: jsval
  priv_type :: jsval
  priv_isEntity :: jsval

subsection \<open>constructor (lines 19-40)\<close>

text \<open>Line 27:
  \<^verbatim>\<open>(typeof obj.mod === 'string' ? obj.mod : obj.mod && obj.mod.name) || obj.modName\<close>.\<close>

definition resolve_modName :: "jsval \<Rightarrow> error + jsval" where
  "resolve_modName obj =
     bindE (get_prop obj ''mod'') (\<lambda>m.
     bindE (if is_string m then Inr m
            else if truthy m then get_prop m ''name'' else Inr m) (\<lambda>n.
     if truthy n then Inr n else get_prop obj ''modName''))"

text \<open>Line 30, the condition of the conditional expression:
  \<^verbatim>\<open>obj.hasOwnProperty('modVal') || obj.mod && obj.mod.hasOwnProperty('val')\<close>,
  as the boolean the conditional takes it for.\<close>

definition declares_val :: "jsval \<Rightarrow> error + bool" where
  "declares_val obj =
     bindE (hasOwnProperty obj ''modVal'') (\<lambda>own.
     if own then Inr True
     else bindE (get_prop obj ''mod'') (\<lambda>m.
          if truthy m then hasOwnProperty m ''val'' else Inr False))"

text \<open>Lines 30-32: \<^verbatim>\<open>... ? obj.mod && obj.mod.val || obj.modVal : true\<close>.\<close>

definition resolve_modVal :: "jsval \<Rightarrow> error + jsval" where
  "resolve_modVal obj =
     bindE (declares_val obj) (\<lambda>declared.
     if declared then
       bindE (get_prop obj ''mod'') (\<lambda>m.
       bindE (if truthy m then get_prop m ''val'' else Inr m) (\<lambda>v.
       if truthy v then Inr v else get_prop obj ''modVal''))
     else Inr (JBool True))"

definition block_undefined :: string where
  "block_undefined = ''This is not valid BEM entity: the field `block` is undefined.''"

definition constructor :: "jsval \<Rightarrow> error + BemEntityName" where
  "constructor obj =
     bindE (get_prop obj ''block'') (\<lambda>b.
     if \<not> truthy b then Inl (Error block_undefined)
     else
       bindE (get_prop obj ''elem'') (\<lambda>el.
       bindE (resolve_modName obj) (\<lambda>modName.
       bindE (if truthy modName
              then bindE (resolve_modVal obj) (\<lambda>modVal.
                     Inr [(''mod'', JObj [(''name'', modName), (''val'', modVal)])])
              else Inr []) (\<lambda>md.
       Inr \<lparr> priv_obj = [(''block'', b)] @ (if truthy el then [(''elem'', el)] else []) @ md,
             priv_id = JUndefined,
             priv_type = JUndefined,
             priv_isEntity = JBool True \<rparr>))))"

subsection \<open>Getters (lines 51-95)\<close>

definition get_block :: "BemEntityName \<Rightarrow> jsval" where
  "get_block e = lookup (priv_obj e) ''block''"

definition get_elem :: "BemEntityName \<Rightarrow> jsval" where
  "get_elem e = lookup (priv_obj e) ''elem''"

text \<open>Line 77: \<^verbatim>\<open>this._obj.mod || {}\<close>.\<close>

definition get_mod :: "BemEntityName \<Rightarrow> jsval" where
  "get_mod e = (let m = lookup (priv_obj e) ''mod'' in if truthy m then m else JObj [])"

definition get_modName :: "BemEntityName \<Rightarrow> error + jsval" where
  "get_modName e = get_prop (get_mod e) ''name''"

definition get_modVal :: "BemEntityName \<Rightarrow> error + jsval" where
  "get_modVal e = get_prop (get_mod e) ''val''"

subsection \<open>id, type and toString (lines 111-165)\<close>

text \<open>
  Lines 114-118 (and again 142-146): the tuple handed to the naming functions. The
  reads go through the getters \<^verbatim>\<open>this.elem\<close>, \<^verbatim>\<open>this.mod.name\<close>, \<^verbatim>\<open>this.mod.val\<close>.
\<close>

definition entity_tuple :: "BemEntityName \<Rightarrow> error + jsobj" where
  "entity_tuple e =
     bindE (get_modName e) (\<lambda>n.
     bindE (get_modVal e) (\<lambda>v.
     Inr ([(''block'', lookup (priv_obj e) ''block'')]
          @ (if truthy (get_elem e) then [(''elem'', get_elem e)] else [])
          @ (if truthy n then [(''modName'', n)] else [])
          @ (if truthy v then [(''modVal'', v)] else []))))"

text \<open>
  \<^verbatim>\<open>stringifyEntity\<close> and \<^verbatim>\<open>typeOfEntity\<close> come from the package \<^verbatim>\<open>bem-naming\<close> and are
  parameters here: any function from the tuple to a string, respectively to a value.
  A getter returns its value and the instance with the cache slot filled.
\<close>

definition get_id :: "(jsobj \<Rightarrow> string) \<Rightarrow> BemEntityName \<Rightarrow> error + jsval \<times> BemEntityName" where
  "get_id stringifyEntity e =
     (if truthy (priv_id e) then Inr (priv_id e, e)
      else bindE (entity_tuple e) (\<lambda>entity.
           let e' = e\<lparr>priv_id := JStr (stringifyEntity entity)\<rparr>
           in Inr (priv_id e', e')))"

definition get_type :: "(jsobj \<Rightarrow> jsval) \<Rightarrow> BemEntityName \<Rightarrow> error + jsval \<times> BemEntityName" where
  "get_type typeOfEntity e =
     (if truthy (priv_type e) then Inr (priv_type e, e)
      else bindE (entity_tuple e) (\<lambda>entity.
           let e' = e\<lparr>priv_type := typeOfEntity entity\<rparr>
           in Inr (priv_type e', e')))"

definition toString :: "(jsobj \<Rightarrow> string) \<Rightarrow> BemEntityName \<Rightarrow> error + jsval \<times> BemEntityName" where
  "toString stringifyEntity e = get_id stringifyEntity e"

subsection \<open>valueOf and inspect (lines 182-207)\<close>

definition valueOf :: "BemEntityName \<Rightarrow> jsobj" where
  "valueOf e = priv_obj e"

text \<open>\<^verbatim>\<open>util.inspect\<close> belongs to Node.js and is a parameter.\<close>

definition inspect :: "(jsobj \<Rightarrow> 'o \<Rightarrow> string) \<Rightarrow> BemEntityName \<Rightarrow> 'd \<Rightarrow> 'o \<Rightarrow> string" where
  "inspect util_inspect e depth options = ''BemEntityName '' @ util_inspect (priv_obj e) options"

subsection \<open>isEqual and isBemEntity (lines 223-235)\<close>

text \<open>
  Both take any value as argument: an instance or a plain value. \<^verbatim>\<open>isEqual\<close> fills the
  cache of the receiver and of the argument, which may be one and the same object, so
  instances live in a store and are passed by address.
\<close>

type_synonym heap = "nat \<Rightarrow> BemEntityName"

datatype jsarg = Ref nat | Val jsval

text \<open>
  \<^verbatim>\<open>===\<close> on plain values. \<^verbatim>\<open>NaN\<close> equals nothing, and two objects are equal only as
  the same reference, which a plain object of the model never is.
\<close>

fun strict_eq :: "jsval \<Rightarrow> jsval \<Rightarrow> bool" where
  "strict_eq JNaN w = False"
| "strict_eq (JObj kvs) w = False"
| "strict_eq v w = (v = w)"

text \<open>Line 224: \<^verbatim>\<open>return entity && (this.id === entity.id);\<close>. An instance is an
  object, hence truthy.\<close>

definition isEqual :: "(jsobj \<Rightarrow> string) \<Rightarrow> heap \<Rightarrow> nat \<Rightarrow> jsarg \<Rightarrow> error + jsval \<times> heap" where
  "isEqual stringifyEntity h this entity =
     (case entity of
        Val v \<Rightarrow>
          if \<not> truthy v then Inr (v, h)
          else bindE (get_id stringifyEntity (h this)) (\<lambda>(i, t).
               bindE (get_prop v ''id'') (\<lambda>j.
               Inr (JBool (strict_eq i j), h(this := t))))
      | Ref a \<Rightarrow>
          bindE (get_id stringifyEntity (h this)) (\<lambda>(i, t).
          let h1 = h(this := t) in
          bindE (get_id stringifyEntity (h1 a)) (\<lambda>(j, u).
          Inr (JBool (strict_eq i j), h1(a := u)))))"

text \<open>Line 234: \<^verbatim>\<open>return entity._isEntity;\<close>.\<close>

definition isBemEntity :: "heap \<Rightarrow> jsarg \<Rightarrow> error + jsval" where
  "isBemEntity h entity =
     (case entity of
        Ref a \<Rightarrow> Inr (priv_isEntity (h a))
      | Val v \<Rightarrow> get_prop v ''_isEntity'')"

section \<open>The life of an instance\<close>

text \<open>
  After construction only the getters \<^verbatim>\<open>id\<close> and \<^verbatim>\<open>type\<close> write to an instance
  (\<^verbatim>\<open>toString\<close> is \<^verbatim>\<open>id\<close>). \<open>later s t e0 e\<close>: the instance built as \<open>e0\<close> is \<open>e\<close>
  after some reads of them.
\<close>

inductive later :: "(jsobj \<Rightarrow> string) \<Rightarrow> (jsobj \<Rightarrow> jsval) \<Rightarrow> BemEntityName \<Rightarrow> BemEntityName \<Rightarrow> bool"
  for stringifyEntity typeOfEntity e0 where
    fresh: "later stringifyEntity typeOfEntity e0 e0"
  | read_id: "later stringifyEntity typeOfEntity e0 e \<Longrightarrow> get_id stringifyEntity e = Inr (i, e')
       \<Longrightarrow> later stringifyEntity typeOfEntity e0 e'"
  | read_type: "later stringifyEntity typeOfEntity e0 e \<Longrightarrow> get_type typeOfEntity e = Inr (t, e')
       \<Longrightarrow> later stringifyEntity typeOfEntity e0 e'"

code_pred later .

section \<open>Basic facts\<close>

lemma bindE_simps [simp]:
  "bindE (Inl e) f = Inl e"
  "bindE (Inr x) f = f x"
  by (simp_all add: bindE_def)

lemma lookup_simps [simp]:
  "lookup [] k = JUndefined"
  "lookup ((k', v) # kvs) k = (if k' = k then v else lookup kvs k)"
  by (simp_all add: lookup_def)



lemma resolve_modName_total: "\<exists>n. resolve_modName (JObj kvs) = Inr n"
  by (cases "lookup kvs ''mod''") (simp_all add: resolve_modName_def)

text \<open>Line 30 is the one place where construction can raise a TypeError.\<close>

lemma hasOwnProperty_TypeError: "hasOwnProperty v k = Inl err \<Longrightarrow> err = TypeError"
  by (cases v) (auto split: if_splits)

lemma declares_val_TypeError: "declares_val (JObj kvs) = Inl err \<Longrightarrow> err = TypeError"
  by (cases "lookup kvs ''mod''")
    (auto simp add: declares_val_def bindE_def split: if_splits sum.splits
      dest: hasOwnProperty_TypeError)

lemma resolve_modVal_TypeError:
  assumes "resolve_modVal (JObj kvs) = Inl err"
  shows "err = TypeError"
proof (cases "declares_val (JObj kvs)")
  case (Inl x)
  with assms show ?thesis
    using declares_val_TypeError [of kvs x] by (simp add: resolve_modVal_def)
next
  case (Inr d)
  with assms show ?thesis
    by (cases "lookup kvs ''mod''") (auto simp add: resolve_modVal_def split: if_splits)
qed



lemma constructor_falsy_block:
  "\<not> truthy (lookup kvs ''block'') \<Longrightarrow> constructor (JObj kvs) = Inl (Error block_undefined)"
  by (simp add: constructor_def)

lemma constructor_truthy_block:
  assumes "truthy (lookup kvs ''block'')"
    and "resolve_modName (JObj kvs) = Inr n"
    and "truthy n \<Longrightarrow> resolve_modVal (JObj kvs) = Inr v"
  shows "constructor (JObj kvs) =
    Inr \<lparr> priv_obj = [(''block'', lookup kvs ''block'')]
             @ (if truthy (lookup kvs ''elem'') then [(''elem'', lookup kvs ''elem'')] else [])
             @ (if truthy n then [(''mod'', JObj [(''name'', n), (''val'', v)])] else []),
           priv_id = JUndefined, priv_type = JUndefined, priv_isEntity = JBool True \<rparr>"
  using assms by (cases "truthy n") (simp_all add: constructor_def)

lemma constructor_modVal_raises:
  assumes "truthy (lookup kvs ''block'')"
    and "resolve_modName (JObj kvs) = Inr n" and "truthy n"
    and "resolve_modVal (JObj kvs) = Inl err"
  shows "constructor (JObj kvs) = Inl TypeError"
  using assms resolve_modVal_TypeError [of kvs err] by (simp add: constructor_def)

lemma constructor_only_objects: "constructor obj = Inr e \<Longrightarrow> \<exists>kvs. obj = JObj kvs"
  by (cases obj) (simp_all add: constructor_def block_undefined_def)

lemma constructor_InrE:
  assumes "constructor (JObj kvs) = Inr e"
  obtains n v where "truthy (lookup kvs ''block'')"
    and "resolve_modName (JObj kvs) = Inr n"
    and "truthy n \<Longrightarrow> resolve_modVal (JObj kvs) = Inr v"
    and "e = \<lparr> priv_obj = [(''block'', lookup kvs ''block'')]
             @ (if truthy (lookup kvs ''elem'') then [(''elem'', lookup kvs ''elem'')] else [])
             @ (if truthy n then [(''mod'', JObj [(''name'', n), (''val'', v)])] else []),
           priv_id = JUndefined, priv_type = JUndefined, priv_isEntity = JBool True \<rparr>"
proof -
  have b: "truthy (lookup kvs ''block'')"
    using assms constructor_falsy_block [of kvs] by auto
  obtain n where n: "resolve_modName (JObj kvs) = Inr n"
    using resolve_modName_total by blast
  have "\<exists>v. truthy n \<longrightarrow> resolve_modVal (JObj kvs) = Inr v"
  proof (cases "resolve_modVal (JObj kvs)")
    case (Inl err)
    then show ?thesis
      using assms constructor_modVal_raises [OF b n _ Inl] by auto
  next
    case (Inr v)
    then show ?thesis by blast
  qed
  then obtain v where v: "truthy n \<Longrightarrow> resolve_modVal (JObj kvs) = Inr v"
    by blast
  show thesis
    using that [OF b n v] assms constructor_truthy_block [OF b n v] by simp
qed


section \<open>Construction\<close>




text \<open>
  C6. The three shapes of the modifier: \<^verbatim>\<open>{block:'b', mod:'m'}\<close> gives the modifier
  \<^verbatim>\<open>{name:'m', val:true}\<close>; \<^verbatim>\<open>{block:'b', mod:{name:'m', val:'v'}}\<close> and
  \<^verbatim>\<open>{block:'b', modName:'m', modVal:'v'}\<close> both give \<^verbatim>\<open>{name:'m', val:'v'}\<close>.
\<close>

theorem modifier_shapes:
  "(\<exists>e. constructor (JObj [(''block'', JStr ''b''), (''mod'', JStr ''m'')]) = Inr e
        \<and> get_mod e = JObj [(''name'', JStr ''m''), (''val'', JBool True)])
   \<and> (\<exists>e. constructor (JObj [(''block'', JStr ''b''),
               (''mod'', JObj [(''name'', JStr ''m''), (''val'', JStr ''v'')])]) = Inr e
        \<and> get_mod e = JObj [(''name'', JStr ''m''), (''val'', JStr ''v'')])
   \<and> (\<exists>e. constructor (JObj [(''block'', JStr ''b''),
               (''modName'', JStr ''m''), (''modVal'', JStr ''v'')]) = Inr e
        \<and> get_mod e = JObj [(''name'', JStr ''m''), (''val'', JStr ''v'')])"
  by (simp add: constructor_def resolve_modName_def resolve_modVal_def declares_val_def
      get_mod_def)

section \<open>The modifier\<close>












text \<open>
  C2. The claim: when \<^verbatim>\<open>mod\<close> carries a \<^verbatim>\<open>val\<close> of its own, the entity's \<^verbatim>\<open>mod.val\<close> is that
  value, also when it is falsy or empty. The constructor does not keep it: on
  \<^verbatim>\<open>{block:'b', mod:{name:'m', val:''}}\<close> line 31 evaluates \<^verbatim>\<open>'' || obj.modVal\<close> and stores
  \<^verbatim>\<open>undefined\<close>, which is neither the empty string nor \<^verbatim>\<open>true\<close>.
\<close>

theorem explicit_empty_val_is_lost:
  "constructor (JObj [(''block'', JStr ''b''),
       (''mod'', JObj [(''name'', JStr ''m''), (''val'', JStr '''')])])
     = Inr \<lparr> priv_obj = [(''block'', JStr ''b''),
                 (''mod'', JObj [(''name'', JStr ''m''), (''val'', JUndefined)])],
             priv_id = JUndefined, priv_type = JUndefined, priv_isEntity = JBool True \<rparr>"
  by (simp add: constructor_def resolve_modName_def resolve_modVal_def declares_val_def)

text \<open>
  The deprecated path does keep an empty value that the input declares:
  \<^verbatim>\<open>{block:'b', modName:'m', modVal:''}\<close> gives the modifier value \<^verbatim>\<open>''\<close>.
\<close>

lemma legacy_empty_modVal_is_kept:
  "bindE (constructor (JObj [(''block'', JStr ''b''),
            (''modName'', JStr ''m''), (''modVal'', JStr '''')])) get_modVal
     = Inr (JStr '''')"
  by (simp add: constructor_def resolve_modName_def resolve_modVal_def declares_val_def
      get_mod_def get_modVal_def)

text \<open>
  C4. The claim: the \<^verbatim>\<open>elem\<close> getter gives the empty string when no element was
  supplied. On \<^verbatim>\<open>{block:'button'}\<close> it gives \<^verbatim>\<open>undefined\<close>: line 64 returns
  \<^verbatim>\<open>this._obj.elem\<close>, a property the constructor did not set.
\<close>

theorem elem_getter_undefined_without_elem:
  "\<exists>e. constructor (JObj [(''block'', JStr ''button'')]) = Inr e \<and> get_elem e = JUndefined"
  by (simp add: constructor_def resolve_modName_def get_elem_def)

text \<open>
  C5. The claim: a modifier that is present never has the absent value as its \<^verbatim>\<open>val\<close>.
  On \<^verbatim>\<open>{block:'b', mod:{name:'m', val:''}}\<close> the modifier is present, its name is
  \<^verbatim>\<open>'m'\<close>, and its \<^verbatim>\<open>val\<close> is \<^verbatim>\<open>undefined\<close>: not \<^verbatim>\<open>true\<close>, and not the value supplied.
\<close>

theorem modifier_with_undefined_val:
  "\<exists>e. constructor (JObj [(''block'', JStr ''b''),
       (''mod'', JObj [(''name'', JStr ''m''), (''val'', JStr '''')])]) = Inr e
     \<and> get_mod e = JObj [(''name'', JStr ''m''), (''val'', JUndefined)]
     \<and> get_modName e = Inr (JStr ''m'') \<and> get_modVal e = Inr JUndefined"
  by (simp add: constructor_def resolve_modName_def resolve_modVal_def declares_val_def
      get_mod_def get_modName_def get_modVal_def)

section \<open>The caches\<close>

text \<open>The getters \<^verbatim>\<open>id\<close> and \<^verbatim>\<open>type\<close> write their own slot only, and the tuple is a
  function of \<^verbatim>\<open>_obj\<close>, so a filled slot holds what a new computation would give.\<close>

lemma entity_tuple_priv_obj: "priv_obj e = priv_obj e' \<Longrightarrow> entity_tuple e = entity_tuple e'"
  by (simp add: entity_tuple_def get_modName_def get_modVal_def get_mod_def get_elem_def)

lemma get_id_priv_obj:
  assumes "get_id s e = Inr (i, e')"
  shows "priv_obj e' = priv_obj e \<and> priv_isEntity e' = priv_isEntity e"
proof (cases "truthy (priv_id e)")
  case True
  with assms show ?thesis by (simp add: get_id_def)
next
  case False
  with assms show ?thesis
    by (cases "entity_tuple e") (auto simp add: get_id_def Let_def)
qed

lemma get_type_priv_obj:
  assumes "get_type t e = Inr (i, e')"
  shows "priv_obj e' = priv_obj e \<and> priv_isEntity e' = priv_isEntity e \<and> priv_id e' = priv_id e"
proof (cases "truthy (priv_type e)")
  case True
  with assms show ?thesis by (simp add: get_type_def)
next
  case False
  with assms show ?thesis
    by (cases "entity_tuple e") (auto simp add: get_type_def Let_def)
qed

lemma later_priv_obj:
  "later s t e0 e \<Longrightarrow> priv_obj e = priv_obj e0 \<and> priv_isEntity e = priv_isEntity e0"
  by (induction rule: later.induct) (auto dest: get_id_priv_obj get_type_priv_obj)

lemma later_priv_id:
  assumes "later s t e0 e" and "priv_id e0 = JUndefined" and "entity_tuple e0 = Inr tup"
  shows "priv_id e = JUndefined \<or> priv_id e = JStr (s tup)"
  using assms
proof (induction rule: later.induct)
  case fresh
  then show ?case by simp
next
  case (read_id e i e')
  then have tup: "entity_tuple e = Inr tup"
    using entity_tuple_priv_obj [of e e0] later_priv_obj [of s t e0 e] by simp
  from read_id show ?case
    by (auto simp add: get_id_def tup Let_def split: if_splits)
next
  case (read_type e i e')
  then show ?case
    using get_type_priv_obj [of t e i e'] by auto
qed

lemma constructor_fresh:
  assumes "constructor obj = Inr e0"
  shows "priv_id e0 = JUndefined \<and> priv_isEntity e0 = JBool True"
proof -
  obtain kvs where "obj = JObj kvs"
    using assms constructor_only_objects by blast
  with assms show ?thesis
    by (auto elim: constructor_InrE)
qed

lemma get_prop_truthy: "truthy v \<Longrightarrow> \<exists>w. get_prop v k = Inr w"
  by (cases v) simp_all

lemma get_mod_truthy: "truthy (get_mod e)"
  by (simp add: get_mod_def Let_def)

lemma entity_tuple_total:
  "\<exists>n v. get_modName e = Inr n \<and> get_modVal e = Inr v
    \<and> entity_tuple e = Inr ([(''block'', get_block e)]
          @ (if truthy (get_elem e) then [(''elem'', get_elem e)] else [])
          @ (if truthy n then [(''modName'', n)] else [])
          @ (if truthy v then [(''modVal'', v)] else []))"
proof -
  obtain n where n: "get_modName e = Inr n"
    unfolding get_modName_def using get_prop_truthy [OF get_mod_truthy] by blast
  obtain v where v: "get_modVal e = Inr v"
    unfolding get_modVal_def using get_prop_truthy [OF get_mod_truthy] by blast
  show ?thesis
    by (simp add: entity_tuple_def n v get_block_def)
qed

lemma get_id_later:
  assumes "constructor obj = Inr e0" and "later s t e0 e" and "entity_tuple e0 = Inr tup"
  shows "get_id s e = Inr (JStr (s tup), e\<lparr>priv_id := JStr (s tup)\<rparr>)"
proof -
  have tup: "entity_tuple e = Inr tup"
    using assms entity_tuple_priv_obj [of e e0] later_priv_obj [of s t e0 e] by simp
  have "priv_id e = JUndefined \<or> priv_id e = JStr (s tup)"
    using assms constructor_fresh later_priv_id by blast
  then show ?thesis
    by (auto simp add: get_id_def tup Let_def)
qed

section \<open>Identity and representation\<close>

text \<open>
  C8. At any moment of the life of a constructed instance, \<^verbatim>\<open>toString()\<close> returns what
  the \<^verbatim>\<open>id\<close> getter returns, and that is \<^verbatim>\<open>stringifyEntity\<close> applied to the tuple of
  \<^verbatim>\<open>block\<close> and of those of \<^verbatim>\<open>elem\<close>, \<^verbatim>\<open>modName\<close>, \<^verbatim>\<open>modVal\<close> that are truthy; the
  reads of the modifier do not fail.
\<close>

theorem toString_is_id:
  assumes "constructor obj = Inr e0" and "later stringifyEntity typeOfEntity e0 e"
  shows "\<exists>n v e'. get_modName e = Inr n \<and> get_modVal e = Inr v
    \<and> get_id stringifyEntity e
        = Inr (JStr (stringifyEntity ([(''block'', get_block e)]
                 @ (if truthy (get_elem e) then [(''elem'', get_elem e)] else [])
                 @ (if truthy n then [(''modName'', n)] else [])
                 @ (if truthy v then [(''modVal'', v)] else []))), e')
    \<and> toString stringifyEntity e = get_id stringifyEntity e"
proof -
  have obj: "priv_obj e = priv_obj e0"
    using assms later_priv_obj by blast
  then have same: "get_modName e = get_modName e0" "get_modVal e = get_modVal e0"
    "get_block e = get_block e0" "get_elem e = get_elem e0"
    by (simp_all add: get_modName_def get_modVal_def get_mod_def get_block_def get_elem_def)
  from entity_tuple_total [of e0] obtain n v where
    nv: "get_modName e0 = Inr n" "get_modVal e0 = Inr v"
    and tup: "entity_tuple e0 = Inr ([(''block'', get_block e0)]
          @ (if truthy (get_elem e0) then [(''elem'', get_elem e0)] else [])
          @ (if truthy n then [(''modName'', n)] else [])
          @ (if truthy v then [(''modVal'', v)] else []))"
    by blast
  show ?thesis
    using get_id_later [OF assms tup] nv same by (simp add: toString_def)
qed

theorem toString_is_id_witness:
  "(\<exists>e'. get_id (\<lambda>entity. concat (map fst entity))
           \<lparr> priv_obj = [(''block'', JStr ''b''),
                (''mod'', JObj [(''name'', JStr ''m''), (''val'', JBool True)])],
             priv_id = JUndefined, priv_type = JUndefined, priv_isEntity = JBool True \<rparr>
         = Inr (JStr ''blockmodNamemodVal'', e'))
   \<and> (\<exists>e'. toString (\<lambda>entity. concat (map fst entity))
           \<lparr> priv_obj = [(''block'', JStr ''b''),
                (''mod'', JObj [(''name'', JStr ''m''), (''val'', JBool True)])],
             priv_id = JStr ''blockmodNamemodVal'', priv_type = JUndefined,
             priv_isEntity = JBool True \<rparr>
         = Inr (JStr ''blockmodNamemodVal'', e'))"
proof -
  let ?s = "\<lambda>entity :: jsobj. concat (map fst entity)"
  let ?t = "\<lambda>entity :: jsobj. JUndefined"
  let ?e0 = "\<lparr> priv_obj = [(''block'', JStr ''b''),
                (''mod'', JObj [(''name'', JStr ''m''), (''val'', JBool True)])],
             priv_id = JUndefined, priv_type = JUndefined, priv_isEntity = JBool True \<rparr>"
  let ?e1 = "?e0\<lparr>priv_id := JStr ''blockmodNamemodVal''\<rparr>"
  have c: "constructor (JObj [(''block'', JStr ''b''), (''mod'', JStr ''m'')]) = Inr ?e0"
    by (simp add: constructor_def resolve_modName_def resolve_modVal_def declares_val_def)
  have l0: "later ?s ?t ?e0 ?e0"
    by (rule later.fresh)
  have "get_id ?s ?e0 = Inr (JStr ''blockmodNamemodVal'', ?e1)"
    by (simp add: get_id_def entity_tuple_def get_modName_def get_modVal_def get_mod_def
        get_elem_def)
  then have l1: "later ?s ?t ?e0 ?e1"
    by (rule later.read_id [OF l0])
  show ?thesis
    using toString_is_id [OF c l0] toString_is_id [OF c l1]
    by (simp add: get_modName_def get_modVal_def get_mod_def get_block_def get_elem_def)
qed

text \<open>
  C9. At any moment of the life of a constructed instance, the object \<^verbatim>\<open>valueOf()\<close>
  returns has its keys among \<^verbatim>\<open>block\<close>, \<^verbatim>\<open>elem\<close>, \<^verbatim>\<open>mod\<close> and never \<^verbatim>\<open>modName\<close> or
  \<^verbatim>\<open>modVal\<close>; \<^verbatim>\<open>block\<close> is always there, \<^verbatim>\<open>elem\<close> exactly when the input's \<^verbatim>\<open>elem\<close> is
  truthy, \<^verbatim>\<open>mod\<close> exactly when a truthy modifier name resolved, and then with the keys
  \<^verbatim>\<open>name\<close> and \<^verbatim>\<open>val\<close>. \<^verbatim>\<open>inspect\<close> renders that same object after the class name.
\<close>

theorem valueOf_keys:
  assumes "constructor (JObj kvs) = Inr e0" and "later stringifyEntity typeOfEntity e0 e"
  shows "set (map fst (valueOf e)) \<subseteq> {''block'', ''elem'', ''mod''}
    \<and> ''modName'' \<notin> set (map fst (valueOf e))
    \<and> ''modVal'' \<notin> set (map fst (valueOf e))
    \<and> ''block'' \<in> set (map fst (valueOf e))
    \<and> (''elem'' \<in> set (map fst (valueOf e)) \<longleftrightarrow> truthy (lookup kvs ''elem''))
    \<and> (''mod'' \<in> set (map fst (valueOf e))
         \<longleftrightarrow> (\<exists>n. resolve_modName (JObj kvs) = Inr n \<and> truthy n))
    \<and> (\<forall>m. lookup (valueOf e) ''mod'' = JObj m \<longrightarrow> map fst m = [''name'', ''val''])
    \<and> inspect util_inspect e depth options
         = ''BemEntityName '' @ util_inspect (valueOf e) options"
proof -
  have v: "priv_obj e = priv_obj e0"
    using assms later_priv_obj by blast
  from assms(1) obtain n w where e0: "priv_obj e0 = [(''block'', lookup kvs ''block'')]
             @ (if truthy (lookup kvs ''elem'') then [(''elem'', lookup kvs ''elem'')] else [])
             @ (if truthy n then [(''mod'', JObj [(''name'', n), (''val'', w)])] else [])"
    and n: "resolve_modName (JObj kvs) = Inr n"
    by (auto elim!: constructor_InrE)
  show ?thesis
    using n by (auto simp add: inspect_def valueOf_def v e0)
qed

theorem valueOf_keys_witness:
  "set (map fst (valueOf
      \<lparr> priv_obj = [(''block'', JStr ''b''), (''elem'', JStr ''e''),
           (''mod'', JObj [(''name'', JStr ''m''), (''val'', JStr ''v'')])],
        priv_id = JUndefined, priv_type = JUndefined, priv_isEntity = JBool True \<rparr>))
     \<subseteq> {''block'', ''elem'', ''mod''}
   \<and> ''modName'' \<notin> set (map fst (valueOf
      \<lparr> priv_obj = [(''block'', JStr ''b''), (''elem'', JStr ''e''),
           (''mod'', JObj [(''name'', JStr ''m''), (''val'', JStr ''v'')])],
        priv_id = JUndefined, priv_type = JUndefined, priv_isEntity = JBool True \<rparr>))
   \<and> ''modVal'' \<notin> set (map fst (valueOf
      \<lparr> priv_obj = [(''block'', JStr ''b''), (''elem'', JStr ''e''),
           (''mod'', JObj [(''name'', JStr ''m''), (''val'', JStr ''v'')])],
        priv_id = JUndefined, priv_type = JUndefined, priv_isEntity = JBool True \<rparr>))"
proof -
  let ?e0 = "\<lparr> priv_obj = [(''block'', JStr ''b''), (''elem'', JStr ''e''),
           (''mod'', JObj [(''name'', JStr ''m''), (''val'', JStr ''v'')])],
        priv_id = JUndefined, priv_type = JUndefined, priv_isEntity = JBool True \<rparr>"
  have c: "constructor (JObj [(''block'', JStr ''b''), (''elem'', JStr ''e''),
      (''modName'', JStr ''m''), (''modVal'', JStr ''v'')]) = Inr ?e0"
    by (simp add: constructor_def resolve_modName_def resolve_modVal_def declares_val_def)
  have l: "later (\<lambda>entity. []) (\<lambda>entity. JUndefined) ?e0 ?e0"
    by (rule later.fresh)
  show ?thesis
    using valueOf_keys [OF c l, where util_inspect = "\<lambda>(entity :: jsobj) (opts :: unit). []"
        and depth = "0 :: nat" and options = "()"]
    by simp
qed

section \<open>isBemEntity and isEqual\<close>

text \<open>
  C10. \<^verbatim>\<open>isBemEntity\<close> returns \<^verbatim>\<open>true\<close> for an instance the constructor built, at any
  moment of its life; applied to \<^verbatim>\<open>null\<close> or \<^verbatim>\<open>undefined\<close> it returns nothing: the read
  of \<^verbatim>\<open>_isEntity\<close> raises a TypeError.
\<close>

theorem isBemEntity_marker:
  "(constructor obj = Inr e0 \<and> later stringifyEntity typeOfEntity e0 (h a)
      \<longrightarrow> isBemEntity h (Ref a) = Inr (JBool True))
   \<and> isBemEntity h (Val JNull) = Inl TypeError
   \<and> isBemEntity h (Val JUndefined) = Inl TypeError"
  using constructor_fresh [of obj e0] later_priv_obj [of stringifyEntity typeOfEntity e0 "h a"]
  by (simp add: isBemEntity_def)

theorem isBemEntity_marker_witness:
  "isBemEntity
     (\<lambda>a. \<lparr> priv_obj = [(''block'', JStr ''b'')], priv_id = JUndefined,
             priv_type = JUndefined, priv_isEntity = JBool True \<rparr>) (Ref 0)
     = Inr (JBool True)
   \<and> isBemEntity
     (\<lambda>a. \<lparr> priv_obj = [(''block'', JStr ''b'')], priv_id = JUndefined,
             priv_type = JUndefined, priv_isEntity = JBool True \<rparr>) (Val JNull)
     = Inl TypeError
   \<and> isBemEntity
     (\<lambda>a. \<lparr> priv_obj = [(''block'', JStr ''b'')], priv_id = JUndefined,
             priv_type = JUndefined, priv_isEntity = JBool True \<rparr>) (Val JUndefined)
     = Inl TypeError"
proof -
  let ?e0 = "\<lparr> priv_obj = [(''block'', JStr ''b'')], priv_id = JUndefined,
             priv_type = JUndefined, priv_isEntity = JBool True \<rparr>"
  have c: "constructor (JObj [(''block'', JStr ''b'')]) = Inr ?e0"
    by (simp add: constructor_def resolve_modName_def)
  have l: "later (\<lambda>entity. []) (\<lambda>entity. JUndefined) ?e0 ?e0"
    by (rule later.fresh)
  show ?thesis
    using isBemEntity_marker [of "JObj [(''block'', JStr ''b'')]" ?e0 "\<lambda>entity. []"
        "\<lambda>entity. JUndefined" "\<lambda>a. ?e0" 0] c l
    by simp
qed

text \<open>
  C7. The claim: comparison against \<^verbatim>\<open>null\<close> or an absent argument returns \<^verbatim>\<open>false\<close>.
  Line 224 returns the argument itself when it is falsy: \<^verbatim>\<open>isEqual(null)\<close> is \<^verbatim>\<open>null\<close>
  and \<^verbatim>\<open>isEqual(undefined)\<close> is \<^verbatim>\<open>undefined\<close>, and no cache is written.
\<close>

theorem isEqual_null_is_null:
  "isEqual stringifyEntity h this (Val JNull) = Inr (JNull, h)
   \<and> isEqual stringifyEntity h this (Val JUndefined) = Inr (JUndefined, h)"
  by (simp add: isEqual_def)

text \<open>
  Between two instances \<^verbatim>\<open>isEqual\<close> does return a boolean: whether the two ids, the
  strings of their tuples, are equal. The two may be the same object.
\<close>

lemma isEqual_instances:
  assumes "constructor obj = Inr e0" and "later stringifyEntity typeOfEntity e0 (h a)"
    and "constructor obj' = Inr e0'" and "later stringifyEntity typeOfEntity e0' (h b)"
    and "entity_tuple (h a) = Inr ta" and "entity_tuple (h b) = Inr tb"
  shows "\<exists>h'. isEqual stringifyEntity h a (Ref b)
            = Inr (JBool (stringifyEntity ta = stringifyEntity tb), h')"
proof -
  have ta: "entity_tuple e0 = Inr ta"
    using assms(2,5) entity_tuple_priv_obj [of e0 "h a"] later_priv_obj by metis
  have tb: "entity_tuple e0' = Inr tb"
    using assms(4,6) entity_tuple_priv_obj [of e0' "h b"] later_priv_obj by metis
  let ?ea = "(h a)\<lparr>priv_id := JStr (stringifyEntity ta)\<rparr>"
  let ?h1 = "h(a := ?ea)"
  have ia: "get_id stringifyEntity (h a) = Inr (JStr (stringifyEntity ta), ?ea)"
    by (rule get_id_later [OF assms(1,2) ta])
  have ib: "\<exists>u. get_id stringifyEntity (?h1 b) = Inr (JStr (stringifyEntity tb), u)"
  proof (cases "b = a")
    case True
    then have "ta = tb"
      using assms(5,6) by simp
    moreover have "later stringifyEntity typeOfEntity e0 ?ea"
      by (rule later.read_id [OF assms(2) ia])
    ultimately show ?thesis
      using get_id_later [OF assms(1) _ ta, of stringifyEntity typeOfEntity ?ea] True by simp
  next
    case False
    then show ?thesis
      using get_id_later [OF assms(3,4) tb] by simp
  qed
  then obtain u where u: "get_id stringifyEntity (?h1 b) = Inr (JStr (stringifyEntity tb), u)"
    by blast
  show ?thesis
    by (simp add: isEqual_def ia u Let_def del: fun_upd_apply)
qed

lemma isEqual_self:
  assumes "constructor obj = Inr e0" and "later stringifyEntity typeOfEntity e0 (h a)"
  shows "\<exists>h'. isEqual stringifyEntity h a (Ref a) = Inr (JBool True, h')"
proof -
  obtain t where t: "entity_tuple (h a) = Inr t"
    using entity_tuple_total by blast
  show ?thesis
    using isEqual_instances [where h = h and a = a and b = a, OF assms assms t t] by simp
qed

end
